theory Spec2Isabelle
  imports Main "HOL-Library.Sublist" "HOL-Library.AList" "HOL-Library.Multiset"
begin

section \<open>Diff formatting (utils.js)\<close>

text \<open>
  JavaScript strings are modelled as \<^typ>\<open>string\<close>. The syntax highlighter
  \<^verbatim>\<open>hljs.highlight(code, {language}).value\<close> is an external library; it is a
  parameter \<open>hl\<close> taking the language and the code.
\<close>

type_synonym highlighter = "string \<Rightarrow> string \<Rightarrow> string"

text \<open>
  \<^verbatim>\<open>escapeHtml\<close> assigns the text to \<^verbatim>\<open>div.textContent\<close> and reads
  \<^verbatim>\<open>div.innerHTML\<close> back. The browser serialises a text node by replacing
  \<^verbatim>\<open>&\<close>, the no-break space U+00A0, \<^verbatim>\<open><\<close> and \<^verbatim>\<open>>\<close> by their entities; quotes
  are kept.
\<close>

definition escapeChar :: "char \<Rightarrow> string" where
  "escapeChar c =
     (if c = CHR ''&'' then ''&amp;''
      else if c = CHR 0xA0 then ''&nbsp;''
      else if c = CHR ''<'' then ''&lt;''
      else if c = CHR ''>'' then ''&gt;''
      else [c])"

definition escapeHtml :: "string \<Rightarrow> string" where
  "escapeHtml text = concat (map escapeChar text)"

text \<open>\<^verbatim>\<open>String.prototype.split('\n')\<close>: an empty string gives one empty line.\<close>

fun split_lines :: "string \<Rightarrow> string list" where
  "split_lines [] = [[]]"
| "split_lines (c # cs) =
     (if c = CHR 0x0A then [] # split_lines cs
      else (case split_lines cs of
              [] \<Rightarrow> [[c]]
            | l # ls \<Rightarrow> (c # l) # ls))"

text \<open>\<^verbatim>\<open>line.startsWith(p)\<close> is \<^term>\<open>prefix p line\<close>; \<^verbatim>\<open>substring(1)\<close> is \<^term>\<open>drop 1\<close>.\<close>

text \<open>
  The branch chain of the loop body in \<^verbatim>\<open>formatAndHighlightPatch\<close>: the pair of
  \<^verbatim>\<open>lineClass\<close> and \<^verbatim>\<open>codeLine\<close> for one (already escaped) line. The tests are
  tried in the order of the source.
\<close>

definition classifyLine :: "string \<Rightarrow> string \<times> string" where
  "classifyLine line =
     (if prefix ''+'' line then (''diff-add'', drop 1 line)
      else if prefix ''-'' line then (''diff-remove'', drop 1 line)
      else if prefix ''@@'' line \<or> prefix ''---'' line \<or> prefix ''+++'' line
        then (''diff-meta'', line)
      else if prefix '' '' line then ('''', drop 1 line)
      else ('''', line))"

definition highlightLine :: "highlighter \<Rightarrow> string \<Rightarrow> string \<Rightarrow> string" where
  "highlightLine hl language codeLine =
     (if language = ''plaintext'' then codeLine else hl language codeLine)"

text \<open>The template literal of one output span; \<^verbatim>\<open>highlighted || '&nbsp;'\<close>
  replaces the empty string.\<close>

definition span :: "string \<Rightarrow> string \<Rightarrow> string" where
  "span lineClass highlighted =
     ''<span class='' @ [CHR 0x22] @ ''diff-line '' @ lineClass @ [CHR 0x22] @ ''>''
       @ (if highlighted = [] then ''&nbsp;'' else highlighted) @ ''</span>''"

definition formatLine :: "highlighter \<Rightarrow> string \<Rightarrow> string \<Rightarrow> string" where
  "formatLine hl language line =
     (case classifyLine line of
        (lineClass, codeLine) \<Rightarrow> span lineClass (highlightLine hl language codeLine))"

definition formatAndHighlightPatch :: "highlighter \<Rightarrow> string \<Rightarrow> string \<Rightarrow> string" where
  "formatAndHighlightPatch hl patchContent language =
     (if patchContent = [] then ''No patch content available''
      else foldl (\<lambda>html line. html @ formatLine hl language line) []
             (split_lines (escapeHtml patchContent)))"


section \<open>Data model\<close>

text \<open>
  A record of the dataset is a JSON object. Its fields are typed as the code reads them;
  a field that is absent (\<^verbatim>\<open>undefined\<close>) is \<^term>\<open>None\<close>. Fields that no modelled
  function reads live in the extension part of the record.
\<close>

record FileChange =
  filename :: string
  additions :: "int option"
  deletions :: "int option"
  changes :: "int option"
  file_patch :: "string option"

record pr =
  repo :: "string option"
  created_at :: "string option"
  problem_statement :: "string option"
  patch :: "FileChange list option"
  FAIL_TO_PASS :: "string option"

text \<open>Truthiness of an optional string: \<^verbatim>\<open>undefined\<close> and \<^verbatim>\<open>''\<close> are falsy.\<close>

definition truthy :: "string option \<Rightarrow> bool" where
  "truthy v = (case v of None \<Rightarrow> False | Some s \<Rightarrow> s \<noteq> [])"

text \<open>Truthiness of an optional boolean (\<^verbatim>\<open>undefined\<close> is falsy).\<close>

definition truthy_bool :: "bool option \<Rightarrow> bool" where
  "truthy_bool v = (case v of None \<Rightarrow> False | Some b \<Rightarrow> b)"

text \<open>
  \<^verbatim>\<open>String.prototype.toLowerCase\<close> on the 8-bit characters of \<^typ>\<open>char\<close>: the letters
  A to Z and the upper-case letters of Latin-1 move up by 32.
\<close>

definition toLowerChar :: "char \<Rightarrow> char" where
  "toLowerChar c =
     (let n = (of_char c :: nat)
      in if (65 \<le> n \<and> n \<le> 90) \<or> (192 \<le> n \<and> n \<le> 222 \<and> n \<noteq> 215)
         then char_of (n + 32) else c)"

definition toLowerCase :: "string \<Rightarrow> string" where
  "toLowerCase s = map toLowerChar s"

text \<open>\<^verbatim>\<open>String.prototype.includes\<close>: the argument occurs as a contiguous substring.\<close>

fun includes_str :: "string \<Rightarrow> string \<Rightarrow> bool" where
  "includes_str [] q = (q = [])"
| "includes_str (c # cs) q = (prefix q (c # cs) \<or> includes_str cs q)"

section \<open>The JavaScript engine\<close>

text \<open>
  A \<^verbatim>\<open>Date\<close> is its time value in milliseconds, or \<^term>\<open>None\<close> for an Invalid Date
  (time value NaN). Date parsing, the local-time \<^verbatim>\<open>setHours\<close> and
  \<^verbatim>\<open>Array.prototype.sort\<close> belong to the JavaScript engine and are parameters. The
  comparator handed to the sort returns a number, \<^term>\<open>None\<close> for NaN; the language
  fixes the result of the sort only when the comparator is consistent on the elements,
  and leaves the order to the engine otherwise.
\<close>

record engine =
  parseDate :: "string \<Rightarrow> int option"
  setHoursStart :: "int \<Rightarrow> int"
  setHoursEnd :: "int \<Rightarrow> int"
  arraySort :: "(pr \<Rightarrow> pr \<Rightarrow> int option) \<Rightarrow> pr list \<Rightarrow> pr list"

text \<open>\<^verbatim>\<open>new Date(v)\<close>; \<^verbatim>\<open>new Date(undefined)\<close> is an Invalid Date.\<close>

definition newDate :: "engine \<Rightarrow> string option \<Rightarrow> int option" where
  "newDate env v = (case v of None \<Rightarrow> None | Some s \<Rightarrow> parseDate env s)"

text \<open>\<^verbatim>\<open>a < b\<close> and \<^verbatim>\<open>a > b\<close> on dates compare the time values; with NaN both are false.\<close>

definition date_lt :: "int option \<Rightarrow> int option \<Rightarrow> bool" where
  "date_lt a b = (case (a, b) of (Some x, Some y) \<Rightarrow> x < y | _ \<Rightarrow> False)"

definition date_gt :: "int option \<Rightarrow> int option \<Rightarrow> bool" where
  "date_gt a b = (case (a, b) of (Some x, Some y) \<Rightarrow> x > y | _ \<Rightarrow> False)"

section \<open>Filter Engine (the callback of applyFilters)\<close>

text \<open>The values read from the filter controls.\<close>

record filters =
  prFilter :: string
  selectedRepos :: "string list"
  startDate :: string
  endDate :: string
  failToPassFilter :: bool

text \<open>\<^verbatim>\<open>pr.problem_statement?.toLowerCase().includes(prQuery)\<close>: \<^verbatim>\<open>undefined\<close> when the
  field is absent.\<close>

definition matchesTitle :: "string \<Rightarrow> pr \<Rightarrow> bool option" where
  "matchesTitle prQuery r =
     (case problem_statement r of
        None \<Rightarrow> None
      | Some ps \<Rightarrow> Some (includes_str (toLowerCase ps) prQuery))"

definition matchesRepo :: "string list \<Rightarrow> pr \<Rightarrow> bool" where
  "matchesRepo selected r =
     (selected = [] \<or>
      (case repo r of None \<Rightarrow> False | Some n \<Rightarrow> toLowerCase n \<in> set selected))"

definition matchesFailToPass :: "bool \<Rightarrow> pr \<Rightarrow> bool" where
  "matchesFailToPass failToPassChecked r =
     (\<not> failToPassChecked \<or> truthy (FAIL_TO_PASS r))"

definition matchesDate :: "engine \<Rightarrow> string \<Rightarrow> string \<Rightarrow> pr \<Rightarrow> bool" where
  "matchesDate env start_s end_s r =
     (let m0 = True;
          m1 = (if start_s \<noteq> [] then
                  (let prDate = newDate env (created_at r);
                       start = map_option (setHoursStart env) (parseDate env start_s)
                   in if date_lt prDate start then False else m0)
                else m0);
          m2 = (if end_s \<noteq> [] then
                  (let prDate = newDate env (created_at r);
                       end_d = map_option (setHoursEnd env) (parseDate env end_s)
                   in if date_gt prDate end_d then False else m1)
                else m1)
      in m2)"

definition keepRecord :: "engine \<Rightarrow> filters \<Rightarrow> pr \<Rightarrow> bool" where
  "keepRecord env cfg r =
     (truthy_bool (matchesTitle (toLowerCase (prFilter cfg)) r)
      \<and> matchesRepo (selectedRepos cfg) r
      \<and> matchesDate env (startDate cfg) (endDate cfg) r
      \<and> matchesFailToPass (failToPassFilter cfg) r)"

text \<open>\<^verbatim>\<open>const filtered = getPrData().filter(...)\<close>.\<close>

definition filtered :: "engine \<Rightarrow> filters \<Rightarrow> pr list \<Rightarrow> pr list" where
  "filtered env cfg prs = filter (keepRecord env cfg) prs"


section \<open>Record Store (dataLoader.js)\<close>

text \<open>
  The two globals \<^verbatim>\<open>prData\<close> and \<^verbatim>\<open>filteredPrData\<close> hold references to arrays, and
  \<^verbatim>\<open>Array.prototype.sort\<close> mutates an array through any reference to it. The state is
  therefore a heap of arrays, the next unused address, and the two references. The four
  statistics tiles written by \<^verbatim>\<open>updateStats\<close> are part of the state; they are
  \<^term>\<open>None\<close> until the script writes them.
\<close>

record stats =
  totalPRs :: nat
  failToPassPRs :: nat
  totalRepos :: nat
  failToPassRepos :: nat

record state =
  heap :: "nat \<Rightarrow> pr list"
  next_free :: nat
  prData :: nat
  filteredPrData :: nat
  tiles :: "stats option"

text \<open>\<^verbatim>\<open>let prData = []; let filteredPrData = [];\<close> are two distinct arrays.\<close>

definition init_state :: state where
  "init_state = \<lparr>heap = (\<lambda>_. []), next_free = 2, prData = 0, filteredPrData = 1,
                  tiles = None\<rparr>"

text \<open>A new array (an array literal, \<^verbatim>\<open>flat\<close>, a spread copy, \<^verbatim>\<open>filter\<close>).\<close>

definition alloc :: "pr list \<Rightarrow> state \<Rightarrow> nat \<times> state" where
  "alloc xs s =
     (next_free s, s\<lparr>heap := (heap s)(next_free s := xs), next_free := Suc (next_free s)\<rparr>)"

definition getPrData :: "state \<Rightarrow> pr list" where
  "getPrData s = heap s (prData s)"

definition getFilteredPrData :: "state \<Rightarrow> pr list" where
  "getFilteredPrData s = heap s (filteredPrData s)"

definition setFilteredPrData :: "nat \<Rightarrow> state \<Rightarrow> state" where
  "setFilteredPrData a s = s\<lparr>filteredPrData := a\<rparr>"

section \<open>Statistics Aggregator and histograms (dataAnalyzer.js)\<close>

text \<open>The size of \<^verbatim>\<open>new Set(values)\<close>: the number of distinct values.\<close>

definition set_size :: "'a list \<Rightarrow> nat" where
  "set_size xs = length (remdups xs)"

text \<open>\<^verbatim>\<open>updateStats\<close>: the four numbers it writes to the tiles.\<close>

definition updateStats :: "pr list \<Rightarrow> stats" where
  "updateStats prs =
     (let failToPassPRsData = filter (\<lambda>r. truthy (FAIL_TO_PASS r)) prs
      in \<lparr>totalPRs = length prs,
          failToPassPRs = length failToPassPRsData,
          totalRepos = set_size (map repo prs),
          failToPassRepos = set_size (map repo failToPassPRsData)\<rparr>)"

text \<open>\<^verbatim>\<open>pr.patch?.length || 0\<close>.\<close>

definition fileCount :: "pr \<Rightarrow> nat" where
  "fileCount r = (case patch r of None \<Rightarrow> 0 | Some fs \<Rightarrow> length fs)"

text \<open>\<^verbatim>\<open>pr.patch?.reduce((sum, file) => sum + (file.changes || 0), 0) || 0\<close>.\<close>

definition changeCount :: "pr \<Rightarrow> int" where
  "changeCount r =
     (case patch r of
        None \<Rightarrow> 0
      | Some fs \<Rightarrow>
          foldl (\<lambda>sum file. sum + (case changes file of None \<Rightarrow> 0 | Some c \<Rightarrow> c)) 0 fs)"

definition fileRange :: "nat \<Rightarrow> string" where
  "fileRange cnt =
     (if cnt \<le> 2 then ''1-2'' else if cnt \<le> 5 then ''3-5''
      else if cnt \<le> 10 then ''6-10'' else ''10+'')"

definition changeRange :: "int \<Rightarrow> string" where
  "changeRange change =
     (if change \<le> 10 then ''1-10'' else if change \<le> 50 then ''11-50''
      else if change \<le> 100 then ''51-100'' else ''100+'')"

text \<open>
  The distribution object keeps its keys in insertion order; it is an association list.
  \<^verbatim>\<open>distribution[range] = (distribution[range] || 0) + 1\<close>.
\<close>

definition increment :: "(string \<times> nat) list \<Rightarrow> string \<Rightarrow> (string \<times> nat) list" where
  "increment distribution rng =
     AList.update rng
       ((case map_of distribution rng of None \<Rightarrow> 0 | Some n \<Rightarrow> n) + 1) distribution"

text \<open>
  The two histogram builders up to the distribution they hand to the chart library
  (\<^verbatim>\<open>Object.keys\<close> are the first components, \<^verbatim>\<open>Object.values\<close> the second).
\<close>

definition createFileDistChart :: "pr list \<Rightarrow> (string \<times> nat) list" where
  "createFileDistChart prs =
     foldl (\<lambda>distribution cnt. increment distribution (fileRange cnt))
       [(''1-2'', 0), (''3-5'', 0), (''6-10'', 0), (''10+'', 0)]
       (map fileCount prs)"

definition createChangesChart :: "pr list \<Rightarrow> (string \<times> nat) list" where
  "createChangesChart prs =
     foldl (\<lambda>distribution change. increment distribution (changeRange change))
       [(''1-10'', 0), (''11-50'', 0), (''51-100'', 0), (''100+'', 0)]
       (map changeCount prs)"

section \<open>List Renderer (prList.js)\<close>

text \<open>
  The comparator \<^verbatim>\<open>(a, b) => new Date(b.created_at) - new Date(a.created_at)\<close>;
  \<^term>\<open>None\<close> is NaN.
\<close>

definition compareCreatedAt :: "engine \<Rightarrow> pr \<Rightarrow> pr \<Rightarrow> int option" where
  "compareCreatedAt env a b =
     (case (newDate env (created_at b), newDate env (created_at a)) of
        (Some x, Some y) \<Rightarrow> Some (x - y)
      | _ \<Rightarrow> None)"

text \<open>\<^verbatim>\<open>generatePRList\<close>: its effect on the store is the in-place sort, by the
  engine, of the array that \<^verbatim>\<open>getFilteredPrData()\<close> returns.\<close>

definition generatePRList :: "engine \<Rightarrow> state \<Rightarrow> state" where
  "generatePRList env s =
     s\<lparr>heap := (heap s)(filteredPrData s :=
          arraySort env (compareCreatedAt env) (getFilteredPrData s))\<rparr>"

text \<open>\<^verbatim>\<open>analyzeData\<close>: nothing happens on an empty dataset.\<close>

definition analyzeData :: "engine \<Rightarrow> state \<Rightarrow> state" where
  "analyzeData env s =
     (if getPrData s = [] then s
      else generatePRList env (s\<lparr>tiles := Some (updateStats (getPrData s))\<rparr>))"

text \<open>\<^verbatim>\<open>applyFilters\<close>: the filter result is a new array; it is stored and then handed
  to the List Renderer.\<close>

definition applyFilters :: "engine \<Rightarrow> filters \<Rightarrow> state \<Rightarrow> state" where
  "applyFilters env cfg s =
     (case alloc (filtered env cfg (getPrData s)) s of
        (a, s1) \<Rightarrow> generatePRList env (setFilteredPrData a s1))"

section \<open>Loader (dataLoader.js)\<close>

text \<open>
  \<^verbatim>\<open>JSON.parse\<close> belongs to the engine and is a parameter: it throws a
  \<^verbatim>\<open>SyntaxError\<close> or returns the parsed value, an array of records or one record.
  A file is modelled by the text that \<^verbatim>\<open>readAsText\<close> delivers.
\<close>

datatype error = SyntaxError string

datatype json = JArray "pr list" | JObject pr

type_synonym parser = "string \<Rightarrow> error + json"

text \<open>The promise of one file: \<^verbatim>\<open>resolve(Array.isArray(data) ? data : [data])\<close> or
  \<^verbatim>\<open>reject(error)\<close>.\<close>

definition readFile :: "parser \<Rightarrow> string \<Rightarrow> error + pr list" where
  "readFile JSON_parse text =
     (case JSON_parse text of
        Inl e \<Rightarrow> Inl e
      | Inr (JArray xs) \<Rightarrow> Inr xs
      | Inr (JObject r) \<Rightarrow> Inr [r])"

text \<open>\<^verbatim>\<open>Promise.all\<close>: the results in file order if every promise resolves, a rejection
  otherwise (the model reports the first one in file order).\<close>

fun promise_all :: "(error + 'a) list \<Rightarrow> error + 'a list" where
  "promise_all [] = Inr []"
| "promise_all (Inl e # ps) = Inl e"
| "promise_all (Inr x # ps) =
     (case promise_all ps of Inl e \<Rightarrow> Inl e | Inr xs \<Rightarrow> Inr (x # xs))"

datatype outcome = NoOp | Loaded | Rejected error

definition loadFiles :: "engine \<Rightarrow> parser \<Rightarrow> string list \<Rightarrow> state \<Rightarrow> outcome \<times> state" where
  "loadFiles env JSON_parse files s =
     (if files = [] then (NoOp, s)
      else case promise_all (map (readFile JSON_parse) files) of
        Inl e \<Rightarrow> (Rejected e, s)
      | Inr results \<Rightarrow>
          (case alloc (concat results) s of
             (a, s1) \<Rightarrow>
               (case alloc (getPrData (s1\<lparr>prData := a\<rparr>)) (s1\<lparr>prData := a\<rparr>) of
                  (b, s2) \<Rightarrow> (Loaded, analyzeData env (s2\<lparr>filteredPrData := b\<rparr>)))))"

section \<open>What the language asks of a sort, and two sorts\<close>

text \<open>The sort reads the comparator's result as a number, a NaN as 0.\<close>

definition sortCompare :: "('a \<Rightarrow> 'a \<Rightarrow> int option) \<Rightarrow> 'a \<Rightarrow> 'a \<Rightarrow> int" where
  "sortCompare cmp x y = (case cmp x y of None \<Rightarrow> 0 | Some v \<Rightarrow> v)"


text \<open>A stable insertion sort, used as the engine's sort in the sample inputs.\<close>

fun stable_insert :: "('a \<Rightarrow> 'a \<Rightarrow> int option) \<Rightarrow> 'a \<Rightarrow> 'a list \<Rightarrow> 'a list" where
  "stable_insert cmp x [] = [x]"
| "stable_insert cmp x (y # ys) =
     (if sortCompare cmp x y > 0 then y # stable_insert cmp x ys else x # y # ys)"

fun stable_sort :: "('a \<Rightarrow> 'a \<Rightarrow> int option) \<Rightarrow> 'a list \<Rightarrow> 'a list" where
  "stable_sort cmp [] = []"
| "stable_sort cmp (x # xs) = stable_insert cmp x (stable_sort cmp xs)"

text \<open>
  The sort of the V8 engine on an array of fewer than 64 elements: the run at the start
  of the array is found (and reversed when it is strictly descending), then every later
  element is put into place by binary insertion. Longer arrays are merged from several
  runs; they are not covered, and the result is \<^term>\<open>None\<close>.
\<close>

fun run_extension :: "('a \<Rightarrow> 'a \<Rightarrow> int option) \<Rightarrow> bool \<Rightarrow> 'a \<Rightarrow> 'a list \<Rightarrow> nat" where
  "run_extension cmp isDescending previousElement [] = 0"
| "run_extension cmp isDescending previousElement (currentElement # rest) =
     (let order = sortCompare cmp currentElement previousElement
      in if (if isDescending then order \<ge> 0 else order < 0) then 0
         else Suc (run_extension cmp isDescending currentElement rest))"

definition countAndMakeRun :: "('a \<Rightarrow> 'a \<Rightarrow> int option) \<Rightarrow> 'a list \<Rightarrow> nat \<times> 'a list" where
  "countAndMakeRun cmp xs =
     (case xs of
        elementHigh # elementLow # rest \<Rightarrow>
          (let isDescending = sortCompare cmp elementLow elementHigh < 0;
               runLength = 2 + run_extension cmp isDescending elementLow rest
           in (runLength,
               if isDescending then rev (take runLength xs) @ drop runLength xs else xs))
      | _ \<Rightarrow> (length xs, xs))"

function binarySearch ::
  "('a \<Rightarrow> 'a \<Rightarrow> int option) \<Rightarrow> 'a \<Rightarrow> 'a list \<Rightarrow> nat \<Rightarrow> nat \<Rightarrow> nat" where
  "binarySearch cmp pivot xs left right =
     (if left < right then
        (let mid = left + (right - left) div 2
         in if sortCompare cmp pivot (xs ! mid) < 0
            then binarySearch cmp pivot xs left mid
            else binarySearch cmp pivot xs (mid + 1) right)
      else left)"
  by pat_completeness auto
termination
  by (relation "measure (\<lambda>(cmp, pivot, xs, left, right). right - left)") auto

definition binaryInsert :: "('a \<Rightarrow> 'a \<Rightarrow> int option) \<Rightarrow> 'a list \<Rightarrow> nat \<Rightarrow> 'a list" where
  "binaryInsert cmp xs start =
     (let pivot = xs ! start;
          left = binarySearch cmp pivot xs 0 start
      in take left xs @ [pivot] @ take (start - left) (drop left xs) @ drop (Suc start) xs)"

definition v8_short_sort :: "('a \<Rightarrow> 'a \<Rightarrow> int option) \<Rightarrow> 'a list \<Rightarrow> 'a list option" where
  "v8_short_sort cmp xs =
     (if length xs < 2 then Some xs
      else if length xs \<ge> 64 then None
      else (case countAndMakeRun cmp xs of
              (runLength, ys) \<Rightarrow> Some (foldl (binaryInsert cmp) ys [runLength..<length xs])))"

section \<open>Sample inputs\<close>

text \<open>A stand-in for the highlighter that marks what it was given.\<close>

definition mark :: highlighter where
  "mark language code = ''<hl>'' @ code"

text \<open>The record \<^verbatim>\<open>{}\<close>, and records built from it.\<close>

definition empty_pr :: pr where
  "empty_pr = \<lparr>repo = None, created_at = None, problem_statement = None, patch = None,
                FAIL_TO_PASS = None\<rparr>"

definition file_of :: "string \<Rightarrow> int \<Rightarrow> FileChange" where
  "file_of name n = \<lparr>filename = name, additions = Some n, deletions = Some 0,
                      changes = Some n, file_patch = None\<rparr>"

text \<open>An engine that knows three days and sorts by stable insertion, and the filter
  controls left untouched.\<close>

definition sample_env :: engine where
  "sample_env = \<lparr>parseDate = (\<lambda>s. if s = ''2024-01-01'' then Some 100
                                 else if s = ''2024-02-01'' then Some 200
                                 else if s = ''2024-03-01'' then Some 300 else None),
                 setHoursStart = (\<lambda>t. t - 10), setHoursEnd = (\<lambda>t. t + 10),
                 arraySort = stable_sort\<rparr>"

definition no_filters :: filters where
  "no_filters = \<lparr>prFilter = [], selectedRepos = [], startDate = [], endDate = [],
                  failToPassFilter = False\<rparr>"

definition pr_a :: pr where
  "pr_a = \<lparr>repo = Some ''a/b'', created_at = Some ''2024-01-01'',
            problem_statement = Some ''Fix crash'', patch = None,
            FAIL_TO_PASS = Some ''t1''\<rparr>"

definition pr_b :: pr where
  "pr_b = \<lparr>repo = Some ''X/Y'', created_at = Some ''2024-03-01'',
            problem_statement = Some ''Add feature'', patch = None,
            FAIL_TO_PASS = None\<rparr>"

definition pr_c :: pr where
  "pr_c = \<lparr>repo = Some ''a/b'', created_at = Some ''2024-02-01'',
            problem_statement = Some ''Update docs'', patch = None,
            FAIL_TO_PASS = Some ''t2''\<rparr>"

definition pr_d :: pr where
  "pr_d = \<lparr>repo = Some ''c/d'', created_at = Some ''2024-02-01'',
            problem_statement = Some ''Rename option'', patch = None,
            FAIL_TO_PASS = None\<rparr>"

text \<open>A record without \<^verbatim>\<open>created_at\<close>.\<close>

definition pr_n :: pr where
  "pr_n = \<lparr>repo = Some ''a/b'', created_at = None,
            problem_statement = Some ''No date'', patch = None,
            FAIL_TO_PASS = None\<rparr>"

text \<open>The object \<^verbatim>\<open>{repo: "a/b", FAIL_TO_PASS: "t1"}\<close>, and a parser that knows three
  file contents.\<close>

definition obj1 :: pr where
  "obj1 = empty_pr\<lparr>repo := Some ''a/b'', FAIL_TO_PASS := Some ''t1''\<rparr>"

definition sample_parser :: parser where
  "sample_parser text =
     (if text = ''f1'' then Inr (JObject obj1)
      else if text = ''f2'' then Inr (JArray [empty_pr, pr_c])
      else if text = ''f3'' then Inr (JArray [pr_a, pr_b, pr_c])
      else if text = ''f4'' then Inr (JArray [empty_pr, pr_b])
      else if text = ''f5'' then Inr (JArray [pr_a, pr_n, pr_b])
      else Inl (SyntaxError ''Unexpected token''))"

section \<open>Properties used in the statements\<close>

text \<open>The two references of the store point to different, allocated arrays.\<close>

definition store_ok :: "state \<Rightarrow> bool" where
  "store_ok s = (prData s < next_free s \<and> filteredPrData s < next_free s
                 \<and> prData s \<noteq> filteredPrData s)"

text \<open>
  The states the page can be in: main.js calls \<^verbatim>\<open>loadFiles\<close> when files are chosen and
  \<^verbatim>\<open>applyFilters\<close> when a filter control changes.
\<close>

inductive reachable :: "engine \<Rightarrow> parser \<Rightarrow> state \<Rightarrow> bool"
  for env :: engine and JSON_parse :: parser where
  start: "reachable env JSON_parse init_state"
| load: "reachable env JSON_parse s \<Longrightarrow>
           reachable env JSON_parse (snd (loadFiles env JSON_parse files s))"
| change: "reachable env JSON_parse s \<Longrightarrow>
           reachable env JSON_parse (applyFilters env cfg s)"


section \<open>The diff line classifier\<close>

lemma foldl_append_concat:
  "foldl (\<lambda>html line. html @ f line) acc ls = acc @ concat (map f ls)"
  by (induction ls arbitrary: acc) simp_all

lemma split_lines_not_Nil: "split_lines s \<noteq> []"
  by (induction s) (simp_all split: list.splits)

lemma split_lines_append:
  "CHR 0x0A \<notin> set xs \<Longrightarrow>
     split_lines (xs @ ys) = (xs @ hd (split_lines ys)) # tl (split_lines ys)"
proof (induction xs)
  case Nil
  then show ?case using split_lines_not_Nil [of ys] by simp
next
  case (Cons x xs)
  then show ?case by auto
qed

lemma escapeChar_newline: "escapeChar (CHR 0x0A) = [CHR 0x0A]"
  by (simp add: escapeChar_def)

lemma escapeChar_no_newline: "c \<noteq> CHR 0x0A \<Longrightarrow> CHR 0x0A \<notin> set (escapeChar c)"
  by (simp add: escapeChar_def)

lemma split_lines_escapeHtml:
  "split_lines (escapeHtml s) = map escapeHtml (split_lines s)"
proof (induction s)
  case Nil
  show ?case by (simp add: escapeHtml_def)
next
  case (Cons c cs)
  show ?case
  proof (cases "c = CHR 0x0A")
    case True
    with Cons show ?thesis
      by (simp add: escapeHtml_def escapeChar_newline)
  next
    case False
    obtain l ls where ls: "split_lines cs = l # ls"
      using split_lines_not_Nil [of cs] by (cases "split_lines cs") auto
    have "split_lines (escapeHtml (c # cs)) = split_lines (escapeChar c @ escapeHtml cs)"
      by (simp add: escapeHtml_def)
    also have "\<dots> = (escapeChar c @ hd (split_lines (escapeHtml cs))) # tl (split_lines (escapeHtml cs))"
      using False by (rule split_lines_append [OF escapeChar_no_newline])
    also have "\<dots> = map escapeHtml (split_lines (c # cs))"
      using False ls Cons by (simp add: escapeHtml_def)
    finally show ?thesis .
  qed
qed

lemma formatAndHighlightPatch_lines:
  "patchContent \<noteq> [] \<Longrightarrow>
     formatAndHighlightPatch hl patchContent language =
       concat (map (\<lambda>raw. formatLine hl language (escapeHtml raw)) (split_lines patchContent))"
  by (simp add: formatAndHighlightPatch_def foldl_append_concat split_lines_escapeHtml comp_def)

lemma escapeHtml_no_markup:
  "CHR ''<'' \<notin> set (escapeHtml s) \<and> CHR ''>'' \<notin> set (escapeHtml s)"
  by (induction s) (auto simp: escapeHtml_def escapeChar_def)

lemma escapeHtml_at: "escapeHtml (''@@'' @ rest) = ''@@'' @ escapeHtml rest"
  by (simp add: escapeHtml_def escapeChar_def)

text \<open>
  Claim C1, as amended: every line of the diff text that starts with \<^verbatim>\<open>@@\<close> gets the
  metadata style \<^verbatim>\<open>diff-meta\<close> and no leading character is stripped; under
  \<^verbatim>\<open>plaintext\<close> its escaped text is emitted unchanged, otherwise it is passed, unstripped,
  through the syntax highlighter like every other line. The output is the concatenation
  of the spans of the lines of the text.
\<close>

theorem metadata_line:
  assumes "prefix ''@@'' raw"
  shows "classifyLine (escapeHtml raw) = (''diff-meta'', escapeHtml raw)
       \<and> formatLine hl language (escapeHtml raw) =
           span ''diff-meta'' (if language = ''plaintext'' then escapeHtml raw
                               else hl language (escapeHtml raw))
       \<and> (patchContent \<noteq> [] \<longrightarrow>
            formatAndHighlightPatch hl patchContent language =
              concat (map (\<lambda>raw. formatLine hl language (escapeHtml raw))
                        (split_lines patchContent)))"
proof -
  from assms obtain rest where raw: "raw = ''@@'' @ rest"
    by (auto simp: prefix_def)
  have c: "classifyLine (escapeHtml raw) = (''diff-meta'', escapeHtml raw)"
    unfolding raw escapeHtml_at by (simp add: classifyLine_def)
  show ?thesis
    using c formatAndHighlightPatch_lines [of patchContent hl language]
    by (simp add: formatLine_def highlightLine_def)
qed

theorem metadata_line_witness:
  "prefix ''@@'' ''@@ -1 +1 @@'' \<and>
   formatAndHighlightPatch mark ''@@ -1 +1 @@'' ''javascript'' =
     ''<span class=\"diff-line diff-meta\"><hl>@@ -1 +1 @@</span>''"
  using metadata_line [of "''@@ -1 +1 @@''" mark "''javascript''" "''@@ -1 +1 @@''"]
  by (simp add: span_def mark_def escapeHtml_def escapeChar_def)

text \<open>
  Lines that start with \<^verbatim>\<open>+++\<close> or \<^verbatim>\<open>---\<close> are caught by the tests for \<^verbatim>\<open>+\<close> and
  \<^verbatim>\<open>-\<close>, which come first: they get the addition or removal style and lose their first
  character. A \<^verbatim>\<open>@@\<close> line is highlighted when the language is not \<^verbatim>\<open>plaintext\<close>.
\<close>

theorem metadata_counterexample:
  "formatAndHighlightPatch mark ''+++ b/a.js'' ''plaintext'' =
     ''<span class=\"diff-line diff-add\">++ b/a.js</span>''
   \<and> formatAndHighlightPatch mark ''--- a/a.js'' ''plaintext'' =
     ''<span class=\"diff-line diff-remove\">-- a/a.js</span>''
   \<and> formatAndHighlightPatch mark ''@@ -1 +1 @@'' ''javascript'' =
     ''<span class=\"diff-line diff-meta\"><hl>@@ -1 +1 @@</span>''"
  by (simp add: formatAndHighlightPatch_def escapeHtml_def escapeChar_def formatLine_def
        classifyLine_def span_def highlightLine_def mark_def)

text \<open>
  Claim C8: the line \<^verbatim>\<open>+console.log('<script>')\<close> gives one span with the addition
  style; the text handed to the highlighter has lost the leading \<^verbatim>\<open>+\<close> and carries
  \<^verbatim>\<open>&lt;script&gt;\<close>; under \<^verbatim>\<open>plaintext\<close> the output is that span and holds no
  \<^verbatim>\<open><script>\<close>. In general every line is escaped before it is classified and
  highlighted, escaped text holds neither \<^verbatim>\<open><\<close> nor \<^verbatim>\<open>>\<close>, and a line whose
  highlighted text is empty is rendered as \<^verbatim>\<open>&nbsp;\<close>.
\<close>

theorem script_line_escaped:
  "formatAndHighlightPatch hl ''+console.log('<script>')'' language =
     span ''diff-add'' (highlightLine hl language ''console.log('&lt;script&gt;')'')
   \<and> formatAndHighlightPatch hl ''+console.log('<script>')'' ''plaintext'' =
       ''<span class=\"diff-line diff-add\">console.log('&lt;script&gt;')</span>''
   \<and> \<not> includes_str (formatAndHighlightPatch hl ''+console.log('<script>')'' ''plaintext'')
         ''<script>''
   \<and> (patchContent \<noteq> [] \<longrightarrow>
        formatAndHighlightPatch hl patchContent language =
          concat (map (\<lambda>raw. formatLine hl language (escapeHtml raw))
                    (split_lines patchContent)))
   \<and> CHR ''<'' \<notin> set (escapeHtml raw) \<and> CHR ''>'' \<notin> set (escapeHtml raw)
   \<and> (highlightLine hl language (snd (classifyLine line)) = [] \<longrightarrow>
        formatLine hl language line =
          ''<span class=\"diff-line '' @ fst (classifyLine line) @ ''\">&nbsp;</span>'')"
proof -
  have a: "formatAndHighlightPatch hl ''+console.log('<script>')'' l =
     span ''diff-add'' (highlightLine hl l ''console.log('&lt;script&gt;')'')" for l
    by (simp add: formatAndHighlightPatch_def escapeHtml_def escapeChar_def formatLine_def
          classifyLine_def)
  have b: "span ''diff-add'' (highlightLine hl ''plaintext'' ''console.log('&lt;script&gt;')'') =
       ''<span class=\"diff-line diff-add\">console.log('&lt;script&gt;')</span>''"
    by (simp add: span_def highlightLine_def)
  have c: "\<not> includes_str ''<span class=\"diff-line diff-add\">console.log('&lt;script&gt;')</span>''
         ''<script>''"
    by simp
  have e: "highlightLine hl language (snd (classifyLine line)) = [] \<longrightarrow>
        formatLine hl language line =
          ''<span class=\"diff-line '' @ fst (classifyLine line) @ ''\">&nbsp;</span>''"
    by (simp add: formatLine_def span_def split: prod.splits)
  show ?thesis
    using a b c e formatAndHighlightPatch_lines [of patchContent hl language]
      escapeHtml_no_markup [of raw]
    by simp
qed

theorem script_line_escaped_witness:
  "formatAndHighlightPatch mark ''+console.log('<script>')'' ''javascript'' =
     ''<span class=\"diff-line diff-add\"><hl>console.log('&lt;script&gt;')</span>''
   \<and> formatAndHighlightPatch mark ''+a<b
+'' ''plaintext'' =
       formatLine mark ''plaintext'' ''+a&lt;b'' @ formatLine mark ''plaintext'' ''+''
   \<and> formatLine mark ''plaintext'' ''+'' = ''<span class=\"diff-line diff-add\">&nbsp;</span>''"
  using script_line_escaped [of mark "''javascript''" "''+a<b
+''" "''<''" "''+''"]
    script_line_escaped [of mark "''plaintext''" "''+a<b
+''" "''<''" "''+''"]
  by (simp add: span_def mark_def highlightLine_def escapeHtml_def escapeChar_def classifyLine_def)

section \<open>Histograms\<close>

lemma increment_sum:
  "rng \<in> fst ` set d \<Longrightarrow>
     sum_list (map snd (increment d rng)) = Suc (sum_list (map snd d))"
proof (induction d)
  case Nil
  then show ?case by simp
next
  case (Cons kv d)
  obtain k v where kv: "kv = (k, v)" by (cases kv)
  show ?case
  proof (cases "k = rng")
    case True
    then show ?thesis by (simp add: kv increment_def)
  next
    case False
    with Cons.prems have "rng \<in> fst ` set d" by (auto simp: kv)
    from Cons.IH [OF this] False show ?thesis
      by (simp add: kv increment_def)
  qed
qed

lemma increment_keys: "rng \<in> fst ` set d \<Longrightarrow> map fst (increment d rng) = map fst d"
  by (induction d) (auto simp: increment_def)

lemma fileRange_cases:
  "fileRange n \<in> {''1-2'', ''3-5'', ''6-10'', ''10+''}"
  by (simp add: fileRange_def)

lemma changeRange_cases:
  "changeRange n \<in> {''1-10'', ''11-50'', ''51-100'', ''100+''}"
  by (simp add: changeRange_def)

lemma histogram_fold:
  "\<forall>x. f x \<in> set (map fst d) \<Longrightarrow>
     map fst (foldl (\<lambda>distribution x. increment distribution (f x)) d xs) = map fst d
   \<and> sum_list (map snd (foldl (\<lambda>distribution x. increment distribution (f x)) d xs))
       = sum_list (map snd d) + length xs"
proof (induction xs arbitrary: d)
  case Nil
  show ?case by simp
next
  case (Cons x xs)
  have in_d: "f x \<in> fst ` set d" using Cons.prems by simp
  have keys: "map fst (increment d (f x)) = map fst d"
    by (rule increment_keys [OF in_d])
  have "\<forall>y. f y \<in> set (map fst (increment d (f x)))"
    using Cons.prems keys by simp
  from Cons.IH [OF this] keys increment_sum [OF in_d]
  show ?case by simp
qed

text \<open>
  Claim C6: for every list of records, the four bucket counts of the file-count histogram
  sum to the length of the list, and so do the four bucket counts of the change-volume
  histogram; the bucket labels stay the four initial ones.
\<close>

theorem histogram_sums:
  "sum_list (map snd (createFileDistChart prs)) = length prs
   \<and> map fst (createFileDistChart prs) = [''1-2'', ''3-5'', ''6-10'', ''10+'']
   \<and> sum_list (map snd (createChangesChart prs)) = length prs
   \<and> map fst (createChangesChart prs) = [''1-10'', ''11-50'', ''51-100'', ''100+'']"
proof -
  have f: "\<forall>n. fileRange n \<in> set (map fst [(''1-2'', 0::nat), (''3-5'', 0), (''6-10'', 0), (''10+'', 0)])"
    using fileRange_cases by simp
  have c: "\<forall>n. changeRange n \<in> set (map fst [(''1-10'', 0::nat), (''11-50'', 0), (''51-100'', 0), (''100+'', 0)])"
    using changeRange_cases by simp
  show ?thesis
    using histogram_fold [OF f, of "map fileCount prs"] histogram_fold [OF c, of "map changeCount prs"]
    by (simp add: createFileDistChart_def createChangesChart_def)
qed

theorem histogram_sums_witness:
  "sum_list (map snd (createFileDistChart
      [empty_pr, empty_pr\<lparr>patch := Some [file_of ''a.js'' 60, file_of ''b.js'' 1, file_of ''c.js'' 1]\<rparr>])) = 2
   \<and> createChangesChart
      [empty_pr, empty_pr\<lparr>patch := Some [file_of ''a.js'' 60, file_of ''b.js'' 1, file_of ''c.js'' 1]\<rparr>]
     = [(''1-10'', 1), (''11-50'', 0), (''51-100'', 1), (''100+'', 0)]"
  using histogram_sums [of "[empty_pr, empty_pr\<lparr>patch := Some [file_of ''a.js'' 60, file_of ''b.js'' 1, file_of ''c.js'' 1]\<rparr>]"]
  by (simp add: createChangesChart_def changeCount_def changeRange_def increment_def
        empty_pr_def file_of_def)

text \<open>
  Claim C7: a record whose \<^verbatim>\<open>patch\<close> is the empty array or absent has file count 0 and
  change volume 0; it is counted in the \<^verbatim>\<open>1-2\<close> bucket of the file-count histogram and
  in the \<^verbatim>\<open>1-10\<close> bucket of the change-volume histogram.
\<close>

theorem empty_patch_buckets:
  assumes "patch r = None \<or> patch r = Some []"
  shows "fileCount r = 0 \<and> changeCount r = 0
       \<and> fileRange (fileCount r) = ''1-2'' \<and> changeRange (changeCount r) = ''1-10''
       \<and> createFileDistChart (prs @ [r]) = increment (createFileDistChart prs) ''1-2''
       \<and> createChangesChart (prs @ [r]) = increment (createChangesChart prs) ''1-10''
       \<and> createFileDistChart [r] = [(''1-2'', 1), (''3-5'', 0), (''6-10'', 0), (''10+'', 0)]
       \<and> createChangesChart [r] = [(''1-10'', 1), (''11-50'', 0), (''51-100'', 0), (''100+'', 0)]"
proof -
  have fc: "fileCount r = 0" using assms by (auto simp: fileCount_def)
  have cc: "changeCount r = 0" using assms by (auto simp: changeCount_def)
  have fr: "fileRange 0 = ''1-2''" by (simp add: fileRange_def)
  have cr: "changeRange 0 = ''1-10''" by (simp add: changeRange_def)
  show ?thesis
    by (simp add: fc cc fr cr createFileDistChart_def createChangesChart_def increment_def)
qed

theorem empty_patch_buckets_witness:
  "createFileDistChart [empty_pr\<lparr>patch := Some []\<rparr>] =
     [(''1-2'', 1), (''3-5'', 0), (''6-10'', 0), (''10+'', 0)]
   \<and> createChangesChart [empty_pr\<lparr>patch := Some []\<rparr>] =
     [(''1-10'', 1), (''11-50'', 0), (''51-100'', 0), (''100+'', 0)]
   \<and> createFileDistChart [empty_pr] =
     [(''1-2'', 1), (''3-5'', 0), (''6-10'', 0), (''10+'', 0)]
   \<and> createChangesChart [empty_pr] =
     [(''1-10'', 1), (''11-50'', 0), (''51-100'', 0), (''100+'', 0)]"
proof -
  have h1: "patch (empty_pr\<lparr>patch := Some []\<rparr>) = None
          \<or> patch (empty_pr\<lparr>patch := Some []\<rparr>) = Some []"
    by simp
  have h2: "patch empty_pr = None \<or> patch empty_pr = Some []"
    by (simp add: empty_pr_def)
  from empty_patch_buckets [OF h1, of "[]"] empty_patch_buckets [OF h2, of "[]"]
  show ?thesis by blast
qed

section \<open>The Filter Engine\<close>

lemma lower_empty: "toLowerCase [] = []"
  by (simp add: toLowerCase_def)

lemma includes_str_empty: "includes_str s []"
  by (cases s) simp_all

lemma includes_str_sublist: "includes_str s q \<longleftrightarrow> sublist q s"
  by (induction s) (auto simp: sublist_Cons_right)

text \<open>
  Claim C4: for every configuration of the filter controls and every full dataset, the
  array computed by the Filter Engine is a subsequence of the full dataset: its records
  occur in the dataset, none more often than there, in the order of the dataset.
\<close>

theorem filtered_subseq:
  "subseq (filtered env cfg prs) prs
   \<and> set (filtered env cfg prs) \<subseteq> set prs
   \<and> count_list (filtered env cfg prs) r \<le> count_list prs r"
proof -
  have "count_list (filter P xs) r \<le> count_list xs r" for P and xs :: "pr list"
    by (induction xs) auto
  then show ?thesis
    by (auto simp: filtered_def)
qed

text \<open>
  Claim C10: a record without \<^verbatim>\<open>created_at\<close> passes the date conditions for every
  start and end date, so whether it is kept depends on the other three conditions only.
\<close>

theorem absent_date_passes:
  assumes "created_at r = None"
  shows "matchesDate env start_s end_s r
       \<and> (keepRecord env cfg r \<longleftrightarrow>
            truthy_bool (matchesTitle (toLowerCase (prFilter cfg)) r)
            \<and> matchesRepo (selectedRepos cfg) r
            \<and> matchesFailToPass (failToPassFilter cfg) r)"
proof -
  have n: "newDate env (created_at r) = None"
    using assms by (simp add: newDate_def)
  have d: "matchesDate env s e r" for s e
    by (simp add: matchesDate_def n date_lt_def date_gt_def)
  show ?thesis using d by (simp add: keepRecord_def)
qed

theorem absent_date_passes_witness:
  "created_at (empty_pr\<lparr>problem_statement := Some ''x''\<rparr>) = None
   \<and> matchesDate sample_env ''2024-01-01'' ''2024-02-01'' (empty_pr\<lparr>problem_statement := Some ''x''\<rparr>)
   \<and> filtered sample_env (no_filters\<lparr>startDate := ''2024-02-01'', endDate := ''2024-02-01''\<rparr>)
        [empty_pr\<lparr>problem_statement := Some ''x''\<rparr>,
         empty_pr\<lparr>problem_statement := Some ''x'', created_at := Some ''2024-01-01''\<rparr>,
         empty_pr\<lparr>problem_statement := Some ''x'', created_at := Some ''2024-03-01''\<rparr>,
         empty_pr\<lparr>problem_statement := Some ''x'', created_at := Some ''2024-02-01''\<rparr>]
      = [empty_pr\<lparr>problem_statement := Some ''x''\<rparr>,
         empty_pr\<lparr>problem_statement := Some ''x'', created_at := Some ''2024-02-01''\<rparr>]"
proof -
  have h: "created_at (empty_pr\<lparr>problem_statement := Some ''x''\<rparr>) = None"
    by (simp add: empty_pr_def)
  have k: "keepRecord sample_env (no_filters\<lparr>startDate := ''2024-02-01'', endDate := ''2024-02-01''\<rparr>)
             (empty_pr\<lparr>problem_statement := Some ''x''\<rparr>)"
    using absent_date_passes [OF h, of sample_env "''2024-02-01''" "''2024-02-01''" "no_filters\<lparr>startDate := ''2024-02-01'', endDate := ''2024-02-01''\<rparr>"]
    by (simp add: no_filters_def lower_empty matchesTitle_def truthy_bool_def matchesRepo_def
          matchesFailToPass_def empty_pr_def includes_str_empty)
  have m: "matchesDate sample_env ''2024-01-01'' ''2024-02-01'' (empty_pr\<lparr>problem_statement := Some ''x''\<rparr>)"
    using absent_date_passes [OF h, of sample_env "''2024-01-01''" "''2024-02-01''" no_filters] by simp
  have out1: "\<not> keepRecord sample_env (no_filters\<lparr>startDate := ''2024-02-01'', endDate := ''2024-02-01''\<rparr>)
             (empty_pr\<lparr>problem_statement := Some ''x'', created_at := Some ''2024-01-01''\<rparr>)"
    by (simp add: keepRecord_def matchesDate_def newDate_def sample_env_def date_lt_def
          date_gt_def no_filters_def empty_pr_def)
  have out2: "\<not> keepRecord sample_env (no_filters\<lparr>startDate := ''2024-02-01'', endDate := ''2024-02-01''\<rparr>)
             (empty_pr\<lparr>problem_statement := Some ''x'', created_at := Some ''2024-03-01''\<rparr>)"
    by (simp add: keepRecord_def matchesDate_def newDate_def sample_env_def date_lt_def
          date_gt_def no_filters_def empty_pr_def)
  have in3: "keepRecord sample_env (no_filters\<lparr>startDate := ''2024-02-01'', endDate := ''2024-02-01''\<rparr>)
             (empty_pr\<lparr>problem_statement := Some ''x'', created_at := Some ''2024-02-01''\<rparr>)"
    by (simp add: keepRecord_def matchesDate_def newDate_def sample_env_def date_lt_def
          date_gt_def no_filters_def empty_pr_def lower_empty matchesTitle_def truthy_bool_def
          matchesRepo_def matchesFailToPass_def includes_str_empty)
  show ?thesis using h k m out1 out2 in3 by (simp add: filtered_def)
qed

lemma lower_samples:
  "toLowerCase ''Fix crash'' = ''fix crash''"
  "toLowerCase ''Add feature'' = ''add feature''"
  "toLowerCase ''Update docs'' = ''update docs''"
  "toLowerCase ''a/b'' = ''a/b''"
  "toLowerCase ''X/Y'' = ''x/y''"
  "toLowerCase ''CRASH'' = ''crash''"
  by code_simp+

theorem filtered_subseq_witness:
  "filtered sample_env (no_filters\<lparr>failToPassFilter := True\<rparr>) [pr_a, pr_b, pr_c, pr_a]
     = [pr_a, pr_c, pr_a]
   \<and> subseq [pr_a, pr_c, pr_a] [pr_a, pr_b, pr_c, pr_a]
   \<and> count_list [pr_a, pr_c, pr_a] pr_b \<le> count_list [pr_a, pr_b, pr_c, pr_a] pr_b"
proof -
  have f: "filtered sample_env (no_filters\<lparr>failToPassFilter := True\<rparr>) [pr_a, pr_b, pr_c, pr_a]
     = [pr_a, pr_c, pr_a]"
    by (simp add: filtered_def keepRecord_def matchesTitle_def truthy_bool_def matchesRepo_def
          matchesDate_def matchesFailToPass_def truthy_def no_filters_def pr_a_def pr_b_def
          pr_c_def lower_empty includes_str_empty)
  from filtered_subseq [of sample_env "no_filters\<lparr>failToPassFilter := True\<rparr>"
      "[pr_a, pr_b, pr_c, pr_a]" pr_b] f
  show ?thesis by simp
qed

text \<open>For a record that has a description the text condition is the case-insensitive
  substring test, and the empty query matches.\<close>

lemma matchesTitle_present:
  assumes "problem_statement r = Some ps"
  shows "truthy_bool (matchesTitle (toLowerCase q) r) \<longleftrightarrow>
           sublist (toLowerCase q) (toLowerCase ps)"
    and "truthy_bool (matchesTitle (toLowerCase []) r)"
  using assms
  by (simp_all add: matchesTitle_def truthy_bool_def includes_str_sublist lower_empty)

text \<open>
  Claim C2 says that an empty text query is satisfied by every record, also by one
  without \<^verbatim>\<open>problem_statement\<close>. The code evaluates
  \<^verbatim>\<open>pr.problem_statement?.toLowerCase().includes(prQuery)\<close>, which is \<^verbatim>\<open>undefined\<close> for
  such a record whatever the query is: with every filter control left untouched,
  \<^verbatim>\<open>{}\<close> is dropped, while a record with a description is kept and is matched
  without regard to case.
\<close>

theorem text_filter_drops_absent_statement:
  "matchesTitle (toLowerCase []) empty_pr = None
   \<and> \<not> keepRecord sample_env no_filters empty_pr
   \<and> filtered sample_env no_filters [empty_pr, pr_a] = [pr_a]
   \<and> filtered sample_env (no_filters\<lparr>prFilter := ''CRASH''\<rparr>) [empty_pr, pr_a, pr_b] = [pr_a]"
  by (simp add: filtered_def keepRecord_def matchesTitle_def truthy_bool_def matchesRepo_def
          matchesDate_def matchesFailToPass_def truthy_def no_filters_def pr_a_def pr_b_def
          empty_pr_def lower_empty includes_str_empty lower_samples)

section \<open>The Loader\<close>

lemma promise_all_rejects:
  "\<exists>p \<in> set ps. isl p \<Longrightarrow> \<exists>e. promise_all ps = Inl e \<and> Inl e \<in> set ps"
proof (induction ps rule: promise_all.induct)
  case 1
  then show ?case by simp
next
  case (2 e ps)
  show ?case by simp
next
  case (3 x ps)
  then have "\<exists>p \<in> set ps. isl p" by auto
  from "3.IH" [OF this] show ?case by auto
qed

lemma promise_all_resolves:
  "\<forall>p \<in> set ps. \<not> isl p \<Longrightarrow> promise_all ps = Inr (map projr ps)"
  by (induction ps rule: promise_all.induct) auto

lemma readFile_isl: "isl (readFile JSON_parse t) \<longleftrightarrow> isl (JSON_parse t)"
  by (auto simp: readFile_def split: sum.splits json.splits)

lemma readFile_Inl: "readFile JSON_parse t = Inl e \<longleftrightarrow> JSON_parse t = Inl e"
  by (auto simp: readFile_def split: sum.splits json.splits)

text \<open>
  Claim C3: loading is all-or-nothing. If any one of the files fails to parse, the load is
  rejected with the parse error of one of the files, and the state (the full dataset,
  the filtered view, every array and the tiles) is the state before the load.
\<close>

theorem loadFiles_all_or_nothing:
  assumes "t \<in> set files" and "isl (JSON_parse t)"
  shows "\<exists>e. loadFiles env JSON_parse files s = (Rejected e, s)
            \<and> (\<exists>t' \<in> set files. JSON_parse t' = Inl e)"
proof -
  from assms have ne: "files \<noteq> []" by auto
  from assms have "\<exists>p \<in> set (map (readFile JSON_parse) files). isl p"
    by (auto simp: readFile_isl)
  from promise_all_rejects [OF this] obtain e where
    e: "promise_all (map (readFile JSON_parse) files) = Inl e"
    and m: "Inl e \<in> set (map (readFile JSON_parse) files)" by blast
  from m obtain t' where "t' \<in> set files" "readFile JSON_parse t' = Inl e" by auto
  then have "\<exists>t' \<in> set files. JSON_parse t' = Inl e" by (auto simp: readFile_Inl)
  with ne e show ?thesis by (simp add: loadFiles_def)
qed

theorem loadFiles_all_or_nothing_witness:
  "getPrData (snd (loadFiles sample_env sample_parser [''f1''] init_state)) = [obj1]
   \<and> loadFiles sample_env sample_parser [''f2'', ''{bad'']
        (snd (loadFiles sample_env sample_parser [''f1''] init_state))
      = (Rejected (SyntaxError ''Unexpected token''),
         snd (loadFiles sample_env sample_parser [''f1''] init_state))"
proof -
  have h1: "''{bad'' \<in> set [''f2'', ''{bad'']" by simp
  have p: "sample_parser ''{bad'' = Inl (SyntaxError ''Unexpected token'')"
    by (simp add: sample_parser_def)
  then have h2: "isl (sample_parser ''{bad'')" by simp
  have q: "sample_parser ''f2'' = Inr (JArray [empty_pr, pr_c])"
    by (simp add: sample_parser_def)
  from loadFiles_all_or_nothing [of "''{bad''" "[''f2'', ''{bad'']" sample_parser sample_env
      "snd (loadFiles sample_env sample_parser [''f1''] init_state)", OF h1 h2]
  obtain e where e: "loadFiles sample_env sample_parser [''f2'', ''{bad'']
        (snd (loadFiles sample_env sample_parser [''f1''] init_state))
      = (Rejected e, snd (loadFiles sample_env sample_parser [''f1''] init_state))"
    and "\<exists>t' \<in> set [''f2'', ''{bad'']. sample_parser t' = Inl e" by blast
  then have "e = SyntaxError ''Unexpected token''" using p q by auto
  moreover have "getPrData (snd (loadFiles sample_env sample_parser [''f1''] init_state)) = [obj1]"
    by (simp add: loadFiles_def sample_parser_def readFile_def alloc_def getPrData_def
          analyzeData_def generatePRList_def init_state_def getFilteredPrData_def)
  ultimately show ?thesis using e by simp
qed

section \<open>Statistics after a load\<close>

lemma getPrData_generatePRList:
  "prData s \<noteq> filteredPrData s \<Longrightarrow> getPrData (generatePRList env s) = getPrData s"
  by (simp add: generatePRList_def getPrData_def)

lemma tiles_generatePRList: "tiles (generatePRList env s) = tiles s"
  by (simp add: generatePRList_def)

lemma loadFiles_resolved:
  assumes "files \<noteq> []"
    and "promise_all (map (readFile JSON_parse) files) = Inr results"
    and "concat results \<noteq> []"
  shows "fst (loadFiles env JSON_parse files s) = Loaded"
    and "getPrData (snd (loadFiles env JSON_parse files s)) = concat results"
    and "tiles (snd (loadFiles env JSON_parse files s)) = Some (updateStats (concat results))"
  using assms
  by (auto simp: loadFiles_def alloc_def analyzeData_def getPrData_def generatePRList_def)

text \<open>
  Claim C5, as amended: after loading two files, one holding the single object
  \<^verbatim>\<open>{repo: "a/b", FAIL_TO_PASS: "t1"}\<close> and one holding an array of two objects neither of
  which has a truthy \<^verbatim>\<open>FAIL_TO_PASS\<close>, the tiles show 3 records, 1 fail-to-pass record and
  1 distinct fail-to-pass repository, in either order of the files.
\<close>

theorem stats_scenario:
  assumes "JSON_parse f1 = Inr (JObject o1)"
    and "repo o1 = Some ''a/b''" and "FAIL_TO_PASS o1 = Some ''t1''"
    and "JSON_parse f2 = Inr (JArray [x, y])"
    and "\<not> truthy (FAIL_TO_PASS x)" and "\<not> truthy (FAIL_TO_PASS y)"
  shows "fst (loadFiles env JSON_parse [f1, f2] s) = Loaded
       \<and> getPrData (snd (loadFiles env JSON_parse [f1, f2] s)) = [o1, x, y]
       \<and> (\<exists>st. tiles (snd (loadFiles env JSON_parse [f1, f2] s)) = Some st
             \<and> totalPRs st = 3 \<and> failToPassPRs st = 1 \<and> failToPassRepos st = 1)
       \<and> fst (loadFiles env JSON_parse [f2, f1] s) = Loaded
       \<and> getPrData (snd (loadFiles env JSON_parse [f2, f1] s)) = [x, y, o1]
       \<and> (\<exists>st. tiles (snd (loadFiles env JSON_parse [f2, f1] s)) = Some st
             \<and> totalPRs st = 3 \<and> failToPassPRs st = 1 \<and> failToPassRepos st = 1)"
proof -
  have t: "truthy (FAIL_TO_PASS o1)" using assms(3) by (simp add: truthy_def)
  have p12: "promise_all (map (readFile JSON_parse) [f1, f2]) = Inr [[o1], [x, y]]"
    using assms(1,4) by (simp add: readFile_def)
  have p21: "promise_all (map (readFile JSON_parse) [f2, f1]) = Inr [[x, y], [o1]]"
    using assms(1,4) by (simp add: readFile_def)
  have s12: "updateStats [o1, x, y] =
      \<lparr>totalPRs = 3, failToPassPRs = 1, totalRepos = set_size [repo o1, repo x, repo y],
       failToPassRepos = 1\<rparr>"
    using t assms(5,6) by (simp add: updateStats_def set_size_def)
  have s21: "updateStats [x, y, o1] =
      \<lparr>totalPRs = 3, failToPassPRs = 1, totalRepos = set_size [repo x, repo y, repo o1],
       failToPassRepos = 1\<rparr>"
    using t assms(5,6) by (simp add: updateStats_def set_size_def)
  show ?thesis
    using loadFiles_resolved [OF _ p12, of env s] loadFiles_resolved [OF _ p21, of env s] s12 s21
    by simp
qed

theorem stats_scenario_witness:
  "tiles (snd (loadFiles sample_env sample_parser [''f1'', ''f4''] init_state)) =
     Some \<lparr>totalPRs = 3, failToPassPRs = 1, totalRepos = 3, failToPassRepos = 1\<rparr>"
proof -
  have a: "sample_parser ''f1'' = Inr (JObject obj1)" by (simp add: sample_parser_def)
  have b: "repo obj1 = Some ''a/b''" by (simp add: obj1_def)
  have c: "FAIL_TO_PASS obj1 = Some ''t1''" by (simp add: obj1_def)
  have d: "sample_parser ''f4'' = Inr (JArray [empty_pr, pr_b])" by (simp add: sample_parser_def)
  have e: "\<not> truthy (FAIL_TO_PASS empty_pr)" by (simp add: empty_pr_def truthy_def)
  have f: "\<not> truthy (FAIL_TO_PASS pr_b)" by (simp add: pr_b_def truthy_def)
  from stats_scenario [of sample_parser "''f1''" obj1 "''f4''" empty_pr pr_b sample_env
      init_state, OF a b c d e f]
  obtain st where st: "tiles (snd (loadFiles sample_env sample_parser [''f1'', ''f4''] init_state)) = Some st"
    and n: "totalPRs st = 3" "failToPassPRs st = 1" "failToPassRepos st = 1" by blast
  have "tiles (snd (loadFiles sample_env sample_parser [''f1'', ''f4''] init_state))
        = Some (updateStats [obj1, empty_pr, pr_b])"
    using a d by (simp add: loadFiles_def readFile_def alloc_def analyzeData_def getPrData_def
        generatePRList_def)
  moreover have "totalRepos (updateStats [obj1, empty_pr, pr_b]) = 3"
    by (simp add: updateStats_def set_size_def obj1_def empty_pr_def pr_b_def)
  ultimately have "totalRepos st = 3" using st by simp
  with st n show ?thesis by (cases st) simp
qed

text \<open>
  When the second object of the array has a truthy \<^verbatim>\<open>FAIL_TO_PASS\<close>, while the first
  has none, the fail-to-pass count is 2.
\<close>

theorem stats_scenario_counterexample:
  "tiles (snd (loadFiles sample_env sample_parser [''f1'', ''f2''] init_state)) =
     Some \<lparr>totalPRs = 3, failToPassPRs = 2, totalRepos = 2, failToPassRepos = 1\<rparr>
   \<and> FAIL_TO_PASS empty_pr = None
   \<and> sample_parser ''f1'' = Inr (JObject obj1)
   \<and> sample_parser ''f2'' = Inr (JArray [empty_pr, pr_c])"
  by (simp add: loadFiles_def sample_parser_def readFile_def alloc_def analyzeData_def
        getPrData_def generatePRList_def updateStats_def set_size_def truthy_def
        obj1_def empty_pr_def pr_c_def init_state_def)

section \<open>The List Renderer and the store\<close>










lemma store_ok_generatePRList: "store_ok s \<Longrightarrow> store_ok (generatePRList env s)"
  by (simp add: store_ok_def generatePRList_def)











text \<open>The sort of V8 leaves the same array as it is, and differs from the stable insertion
  sort on another array with a dateless record.\<close>

lemma v8_short_sort_samples:
  "v8_short_sort (compareCreatedAt sample_env) [pr_a, pr_n, pr_b] = Some [pr_a, pr_n, pr_b]"
  "v8_short_sort (compareCreatedAt sample_env) [pr_a, pr_c, pr_n, pr_d]
     = Some [pr_c, pr_d, pr_a, pr_n]"
  "stable_sort (compareCreatedAt sample_env) [pr_a, pr_c, pr_n, pr_d]
     = [pr_c, pr_a, pr_n, pr_d]"
  "v8_short_sort (compareCreatedAt sample_env) [pr_a, pr_b, pr_c] = Some [pr_b, pr_c, pr_a]"
  by code_simp+

end
